theory Spec2Isabelle
  imports Complex_Main
begin

section \<open>The AI assistant dialog (src/components/AIAssistant.tsx)\<close>

text \<open>
  The component is a React function component. Its local state lives in five \<open>useState\<close>
  cells; every handler is a closure created by one render and therefore reads the state
  and the props of that render (the constants \<open>query\<close>, \<open>intention\<close>, \<open>response\<close>, ... of
  the component body), while the setters only schedule updates that become visible in the
  next render. The embedding keeps the two apart: a handler is a function from the props
  and the state of the render that created it to the list of actions it performs, in
  program order. The setter calls among these actions are applied, in order, to the
  component state by \<open>run\<close>; the other actions are the calls that leave the component
  (the inference request, the caller's callbacks, the confirmation prompt, the console).
\<close>

subsection \<open>Strings\<close>

text \<open>
  A JavaScript string is modelled as a \<^typ>\<open>string\<close>, a list of code units below 256.
  On this range the white space and line terminators removed by \<open>String.prototype.trim\<close>
  are TAB, LF, VT, FF, CR, SPACE and NO-BREAK SPACE, and \<open>toLowerCase\<close> maps
  \<open>A\<close>..\<open>Z\<close> and the capital letters U+00C0..U+00DE (without the multiplication sign
  U+00D7) to the code unit 32 above.
\<close>

definition isWhiteSpace :: "char \<Rightarrow> bool" where
  "isWhiteSpace c = (of_char c \<in> {9, 10, 11, 12, 13, 32, 160 :: nat})"

definition trim :: "string \<Rightarrow> string" where
  "trim s = rev (dropWhile isWhiteSpace (rev (dropWhile isWhiteSpace s)))"

definition toLowerCase_char :: "char \<Rightarrow> char" where
  "toLowerCase_char c =
     (let n = (of_char c :: nat)
      in if (65 \<le> n \<and> n \<le> 90) \<or> (192 \<le> n \<and> n \<le> 222 \<and> n \<noteq> 215)
         then char_of (n + 32) else c)"

definition toLowerCase :: "string \<Rightarrow> string" where
  "toLowerCase s = map toLowerCase_char s"

definition startsWith :: "string \<Rightarrow> string \<Rightarrow> bool" where
  "startsWith s pat = (take (length pat) s = pat)"

text \<open>\<open>String.prototype.includes\<close>: the pattern occurs at some position of the string.\<close>

fun str_includes :: "string \<Rightarrow> string \<Rightarrow> bool" where
  "str_includes [] pat = (pat = [])"
| "str_includes (c # cs) pat = (startsWith (c # cs) pat \<or> str_includes cs pat)"

subsection \<open>Props, state and the static tables\<close>

datatype intention = Fix | Optimize | Brainstorm | Explain

text \<open>
  The callbacks \<open>onClose\<close> and \<open>onApplySuggestion\<close> belong to the caller; the props record
  holds a tag identifying each of them (\<open>None\<close> for an \<open>onApplySuggestion\<close> that was not
  supplied), and calling one is an action carrying that tag. The prop \<open>open\<close> is the field
  \<open>open_flag\<close>. The \<open>language\<close> is a member of the string enumeration \<open>FileType\<close>, taken
  here as the string it is at run time.
\<close>

record props =
  open_flag :: bool
  onClose :: nat
  code :: string
  language :: string
  fileName :: "string option"
  onApplySuggestion :: "nat option"

record AIResponse =
  suggestion :: string
  explanation :: string
  confidence :: rat

record state =
  query :: string
  response :: "AIResponse option"
  loading :: bool
  error :: "string option"
  intention :: intention

definition initial_state :: state where
  "initial_state =
     \<lparr>query = [], response = None, loading = False, error = None, intention = Fix\<rparr>"

text \<open>
  \<open>intentionConfig\<close>. The temperatures are the decimal literals of the source, which are
  only stored and passed on, never computed with. The \<open>label\<close> field (a pictograph and
  a caption, used for rendering only) is left out.
\<close>

record config =
  temperature :: rat
  description :: string

fun intentionConfig :: "intention \<Rightarrow> config" where
  "intentionConfig Fix =
     \<lparr>temperature = 0.1, description = ''Precise fixes, low creativity''\<rparr>"
| "intentionConfig Optimize =
     \<lparr>temperature = 0.2, description = ''Performance improvements''\<rparr>"
| "intentionConfig Explain =
     \<lparr>temperature = 0.3, description = ''Clear explanations''\<rparr>"
| "intentionConfig Brainstorm =
     \<lparr>temperature = 0.7, description = ''Creative ideas, high creativity''\<rparr>"

text \<open>
  \<open>quickPrompts\<close>, without the icons; the fields \<open>text\<close> and \<open>intention\<close> of an entry are
  \<open>text_label\<close> and \<open>qp_intention\<close>.
\<close>

record quickPrompt =
  text_label :: string
  prompt :: string
  qp_intention :: intention

definition quickPrompts :: "quickPrompt list" where
  "quickPrompts =
     [\<lparr>text_label = ''Fix bugs and errors'',
       prompt = ''Please review this code and identify any bugs, errors, or potential issues. Provide fixes and explanations.'',
       qp_intention = Fix\<rparr>,
      \<lparr>text_label = ''Optimize performance'',
       prompt = ''Please analyze this code for performance improvements and optimization opportunities. Suggest specific changes.'',
       qp_intention = Optimize\<rparr>,
      \<lparr>text_label = ''Add new features'',
       prompt = ''Please suggest how to add new features or functionality to this code. Provide code examples and implementation details.'',
       qp_intention = Brainstorm\<rparr>,
      \<lparr>text_label = ''Improve code quality'',
       prompt = ''Please review this code and suggest improvements for readability, maintainability, and best practices.'',
       qp_intention = Explain\<rparr>]"

subsection \<open>Actions\<close>

text \<open>
  The argument object of \<open>callAIAssistantDirect\<close>; its fields \<open>code\<close>, \<open>language\<close>, ... carry
  the prefix \<open>req\<close>.
\<close>

record payload =
  req_code :: string
  req_language :: string
  req_fileName :: "string option"
  req_prompt :: string
  req_context :: string
  req_temperature :: rat

text \<open>
  What the \<open>catch\<close> clause receives: an \<open>Error\<close> object with its \<open>message\<close>, or any
  other thrown value. The awaited call either resolves with a response or rejects.
\<close>

datatype thrown = ErrorObject string | NonError

datatype outcome = Resolved AIResponse | Rejected thrown

datatype action =
    SetQuery string
  | SetResponse "AIResponse option"
  | SetLoading bool
  | SetError "string option"
  | SetIntention intention
  | CallAIAssistantDirect payload
  | ConsoleError thrown
  | WindowConfirm string
  | OnApplySuggestion nat string
  | OnClose nat

fun apply_action :: "action \<Rightarrow> state \<Rightarrow> state" where
  "apply_action (SetQuery q) s = s\<lparr>query := q\<rparr>"
| "apply_action (SetResponse r) s = s\<lparr>response := r\<rparr>"
| "apply_action (SetLoading b) s = s\<lparr>loading := b\<rparr>"
| "apply_action (SetError e) s = s\<lparr>error := e\<rparr>"
| "apply_action (SetIntention i) s = s\<lparr>intention := i\<rparr>"
| "apply_action _ s = s"

fun run :: "action list \<Rightarrow> state \<Rightarrow> state" where
  "run [] s = s"
| "run (a # as) s = run as (apply_action a s)"

fun requests :: "action list \<Rightarrow> payload list" where
  "requests [] = []"
| "requests (CallAIAssistantDirect r # as) = r # requests as"
| "requests (_ # as) = requests as"

subsection \<open>handleSubmit\<close>

text \<open>\<open>customPrompt || query\<close>: an absent or empty \<open>customPrompt\<close> yields the query.\<close>

definition effectivePrompt :: "state \<Rightarrow> string option \<Rightarrow> string" where
  "effectivePrompt s customPrompt =
     (case customPrompt of
        None \<Rightarrow> query s
      | Some c \<Rightarrow> if c = [] then query s else c)"

definition context_string :: string where
  "context_string = ''WebXR development with A-Frame, Three.js, and modern web technologies''"

text \<open>The part of \<open>handleSubmit\<close> that runs up to the \<open>await\<close>.\<close>

definition handleSubmit :: "props \<Rightarrow> state \<Rightarrow> string option \<Rightarrow> action list" where
  "handleSubmit p s customPrompt =
     (let pr = effectivePrompt s customPrompt
      in if trim pr = [] then []
         else [SetLoading True, SetError None, SetResponse None,
               CallAIAssistantDirect
                 \<lparr>req_code = code p,
                  req_language = toLowerCase (language p),
                  req_fileName = fileName p,
                  req_prompt = pr,
                  req_context = context_string,
                  req_temperature = temperature (intentionConfig (intention s))\<rparr>])"

definition fallback_message :: string where
  "fallback_message = ''Failed to get AI response''"

fun error_message :: "thrown \<Rightarrow> string" where
  "error_message (ErrorObject m) = m"
| "error_message NonError = fallback_message"

text \<open>The rest of \<open>handleSubmit\<close>, run when the awaited call settles.\<close>

fun handleSubmit_settled :: "outcome \<Rightarrow> action list" where
  "handleSubmit_settled (Resolved data) = [SetResponse (Some data), SetLoading False]"
| "handleSubmit_settled (Rejected err) =
     [SetError (Some (error_message err)), ConsoleError err, SetLoading False]"

subsection \<open>handleQuickPrompt\<close>

text \<open>
  \<open>handleQuickPrompt\<close> calls \<open>handleSubmit\<close> of the same render, so the submission reads
  the state \<open>s\<close> of that render, not the state the two setters have scheduled.
\<close>

definition handleQuickPrompt ::
  "props \<Rightarrow> state \<Rightarrow> string \<Rightarrow> intention option \<Rightarrow> action list" where
  "handleQuickPrompt p s pr i =
     (case i of None \<Rightarrow> [] | Some j \<Rightarrow> [SetIntention j])
     @ [SetQuery pr]
     @ handleSubmit p s (Some pr)"

text \<open>The \<open>onClick\<close> of the quick-action button made from a catalog entry.\<close>

definition activate :: "props \<Rightarrow> state \<Rightarrow> quickPrompt \<Rightarrow> action list" where
  "activate p s q = handleQuickPrompt p s (prompt q) (Some (qp_intention q))"

subsection \<open>handleApplySuggestion\<close>

definition confirm_message :: string where
  "confirm_message = ''This suggestion appears to be a complete file replacement. This will replace your entire code. Are you sure you want to continue?''"

text \<open>
  \<open>window.confirm\<close> blocks and returns the user's answer; \<open>confirmReplace\<close> is the answer
  the user gives if asked. The handler calls no setter.
\<close>

definition handleApplySuggestion :: "props \<Rightarrow> state \<Rightarrow> bool \<Rightarrow> action list" where
  "handleApplySuggestion p s confirmReplace =
     (case response s of
        None \<Rightarrow> []
      | Some r \<Rightarrow>
          if suggestion r = [] then []
          else (case onApplySuggestion p of
                  None \<Rightarrow> []
                | Some cb \<Rightarrow>
                    if str_includes (suggestion r) ''<!DOCTYPE''
                       \<or> str_includes (suggestion r) ''<html''
                    then WindowConfirm confirm_message #
                         (if \<not> confirmReplace then []
                          else [OnApplySuggestion cb (suggestion r), OnClose (onClose p)])
                    else [OnApplySuggestion cb (suggestion r), OnClose (onClose p)]))"

subsection \<open>The Escape key effect\<close>

text \<open>
  \<open>useEffect(..., [open, onClose])\<close>: after the first render, and after every render in
  which \<open>open\<close> or \<open>onClose\<close> differs from the previous render, React runs the cleanup
  returned by the previous run of the effect (if any) and then the effect; on unmount it
  runs the cleanup. A listener is the closure \<open>handleEscape\<close> of one render, which has
  captured that render's \<open>open\<close> and \<open>onClose\<close>. \<open>keydown_listeners\<close> are the listeners
  this component has on the document.
\<close>

datatype listener = HandleEscape bool nat

record effect_state =
  keydown_listeners :: "listener list"
  cleanup :: "listener option"
  deps :: "(bool \<times> nat) option"

definition unmounted :: effect_state where
  "unmounted = \<lparr>keydown_listeners = [], cleanup = None, deps = None\<rparr>"

definition run_effect :: "bool \<Rightarrow> nat \<Rightarrow> effect_state \<Rightarrow> effect_state" where
  "run_effect opn cb e =
     (if opn
      then e\<lparr>keydown_listeners := keydown_listeners e @ [HandleEscape opn cb],
              cleanup := Some (HandleEscape opn cb)\<rparr>
      else e\<lparr>cleanup := None\<rparr>)"

definition run_cleanup :: "effect_state \<Rightarrow> effect_state" where
  "run_cleanup e =
     (case cleanup e of
        None \<Rightarrow> e
      | Some l \<Rightarrow> e\<lparr>keydown_listeners := remove1 l (keydown_listeners e), cleanup := None\<rparr>)"

datatype lifecycle = Render bool nat | Unmount

fun commit :: "effect_state \<Rightarrow> lifecycle \<Rightarrow> effect_state" where
  "commit e (Render opn cb) =
     (if deps e = Some (opn, cb) then e
      else (run_effect opn cb (run_cleanup e))\<lparr>deps := Some (opn, cb)\<rparr>)"
| "commit e Unmount = (run_cleanup e)\<lparr>deps := None\<rparr>"

definition after :: "lifecycle list \<Rightarrow> effect_state" where
  "after evs = foldl commit unmounted evs"

text \<open>The props of the latest render, if the component is mounted.\<close>

definition latest :: "lifecycle list \<Rightarrow> (bool \<times> nat) option" where
  "latest evs =
     (if evs = [] then None
      else case last evs of Render opn cb \<Rightarrow> Some (opn, cb) | Unmount \<Rightarrow> None)"

fun handleEscape :: "listener \<Rightarrow> string \<Rightarrow> action list" where
  "handleEscape (HandleEscape opn cb) key =
     (if key = ''Escape'' \<and> opn then [OnClose cb] else [])"

text \<open>A key press on the document calls every listener registered there.\<close>

definition keydown :: "effect_state \<Rightarrow> string \<Rightarrow> action list" where
  "keydown e key = concat (map (\<lambda>l. handleEscape l key) (keydown_listeners e))"

subsection \<open>Clicks\<close>

text \<open>
  The elements of the rendered tree: the backdrop, the dialog surface inside it, and
  inside the surface the controls that have a handler; \<open>Static\<close> stands for every other
  element inside the surface. Nothing is rendered while \<open>open\<close> is false, the apply button
  only while there is a response. A disabled control receives no click.
\<close>

datatype element =
    Backdrop
  | Surface
  | CloseButton
  | IntentionButton intention
  | QuickPromptButton nat
  | QueryInput
  | AskButton
  | ApplyButton
  | Static



text \<open>The \<open>onClick\<close> of an element inside the backdrop.\<close>

fun onClick :: "props \<Rightarrow> state \<Rightarrow> bool \<Rightarrow> element \<Rightarrow> action list" where
  "onClick p s confirmReplace CloseButton = [OnClose (onClose p)]"
| "onClick p s confirmReplace (IntentionButton k) = [SetIntention k]"
| "onClick p s confirmReplace (QuickPromptButton i) = activate p s (quickPrompts ! i)"
| "onClick p s confirmReplace AskButton = handleSubmit p s None"
| "onClick p s confirmReplace ApplyButton = handleApplySuggestion p s confirmReplace"
| "onClick p s confirmReplace _ = []"



section \<open>Properties\<close>

subsection \<open>Auxiliary facts\<close>

lemma trim_Nil: "trim [] = []"
  by (simp add: trim_def)

lemma handleSubmit_nonblank:
  "trim (effectivePrompt s c) \<noteq> [] \<Longrightarrow>
   handleSubmit p s c =
     [SetLoading True, SetError None, SetResponse None,
      CallAIAssistantDirect
        \<lparr>req_code = code p, req_language = toLowerCase (language p),
         req_fileName = fileName p, req_prompt = effectivePrompt s c,
         req_context = context_string,
         req_temperature = temperature (intentionConfig (intention s))\<rparr>]"
  by (simp add: handleSubmit_def)

lemma quickPrompts_nonblank: "q \<in> set quickPrompts \<Longrightarrow> trim (prompt q) \<noteq> []"
  by (auto simp add: quickPrompts_def trim_def isWhiteSpace_def)

lemma quickPrompts_nonempty: "q \<in> set quickPrompts \<Longrightarrow> prompt q \<noteq> []"
  by (metis quickPrompts_nonblank trim_Nil)

text \<open>
  \<open>toLowerCase\<close> in terms of code units: a capital letter moves up by 32, every other
  code unit stays, and so does the length.
\<close>

lemma of_char_toLowerCase_char:
  "of_char (toLowerCase_char c) =
     (if (65 \<le> (of_char c :: nat) \<and> (of_char c :: nat) \<le> 90)
         \<or> (192 \<le> (of_char c :: nat) \<and> (of_char c :: nat) \<le> 222
             \<and> (of_char c :: nat) \<noteq> 215)
      then of_char c + 32 else (of_char c :: nat))"
  by (auto simp add: toLowerCase_char_def Let_def)

lemma toLowerCase_code_units:
  "map of_char (toLowerCase s) =
     map (\<lambda>c. if (65 \<le> (of_char c :: nat) \<and> (of_char c :: nat) \<le> 90)
                  \<or> (192 \<le> (of_char c :: nat) \<and> (of_char c :: nat) \<le> 222
                      \<and> (of_char c :: nat) \<noteq> 215)
               then of_char c + 32 else (of_char c :: nat)) s"
  by (simp add: toLowerCase_def of_char_toLowerCase_char)

lemma length_toLowerCase: "length (toLowerCase s) = length s"
  by (simp add: toLowerCase_def)

lemma toLowerCase_alphabet:
  "toLowerCase ''ABCDEFGHIJKLMNOPQRSTUVWXYZ'' = ''abcdefghijklmnopqrstuvwxyz''"
  "toLowerCase ''abcdefghijklmnopqrstuvwxyz'' = ''abcdefghijklmnopqrstuvwxyz''"
  "toLowerCase ''0123456789 <>!-_./'' = ''0123456789 <>!-_./''"
  by code_simp+

text \<open>
  What activating a catalog entry does, for every entry and every state of the render:
  the intention and the query are set to the entry's, and the one request carries the
  entry's prompt and the temperature of the intention of the render.
\<close>

lemma activate_quickPrompt:
  assumes "q \<in> set quickPrompts"
  shows "intention (run (activate p s q) s) = qp_intention q"
    and "query (run (activate p s q) s) = prompt q"
    and "requests (activate p s q) =
           [\<lparr>req_code = code p, req_language = toLowerCase (language p),
             req_fileName = fileName p, req_prompt = prompt q,
             req_context = context_string,
             req_temperature = temperature (intentionConfig (intention s))\<rparr>]"
proof -
  have nb: "trim (prompt q) \<noteq> []"
    using assms by (rule quickPrompts_nonblank)
  then have ne: "prompt q \<noteq> []"
    using trim_Nil by auto
  then have eff: "effectivePrompt s (Some (prompt q)) = prompt q"
    by (simp add: effectivePrompt_def)
  with nb have sub: "handleSubmit p s (Some (prompt q)) =
     [SetLoading True, SetError None, SetResponse None,
      CallAIAssistantDirect
        \<lparr>req_code = code p, req_language = toLowerCase (language p),
         req_fileName = fileName p, req_prompt = prompt q,
         req_context = context_string,
         req_temperature = temperature (intentionConfig (intention s))\<rparr>]"
    using handleSubmit_nonblank [of s "Some (prompt q)" p] by simp
  show "intention (run (activate p s q) s) = qp_intention q"
    by (simp add: activate_def handleQuickPrompt_def sub)
  show "query (run (activate p s q) s) = prompt q"
    by (simp add: activate_def handleQuickPrompt_def sub)
  show "requests (activate p s q) =
           [\<lparr>req_code = code p, req_language = toLowerCase (language p),
             req_fileName = fileName p, req_prompt = prompt q,
             req_context = context_string,
             req_temperature = temperature (intentionConfig (intention s))\<rparr>]"
    by (simp add: activate_def handleQuickPrompt_def sub)
qed



text \<open>\<open>str_includes\<close> holds exactly when the pattern is a contiguous part of the string.\<close>

lemma startsWith_iff: "startsWith s pat \<longleftrightarrow> (\<exists>v. s = pat @ v)"
  unfolding startsWith_def by (metis append_eq_conv_conj append_take_drop_id)

lemma str_includes_iff: "str_includes s pat \<longleftrightarrow> (\<exists>u v. s = u @ pat @ v)"
proof (induction s)
  case Nil
  then show ?case by auto
next
  case (Cons c cs)
  show ?case
  proof
    assume "str_includes (c # cs) pat"
    then consider "startsWith (c # cs) pat" | "str_includes cs pat" by auto
    then show "\<exists>u v. c # cs = u @ pat @ v"
    proof cases
      case 1
      then obtain v where "c # cs = pat @ v" using startsWith_iff by blast
      then have "c # cs = [] @ pat @ v" by simp
      then show ?thesis by blast
    next
      case 2
      with Cons.IH obtain u v where "cs = u @ pat @ v" by blast
      then have "c # cs = (c # u) @ pat @ v" by simp
      then show ?thesis by blast
    qed
  next
    assume "\<exists>u v. c # cs = u @ pat @ v"
    then obtain u v where uv: "c # cs = u @ pat @ v" by blast
    show "str_includes (c # cs) pat"
    proof (cases u)
      case Nil
      with uv have "startsWith (c # cs) pat" using startsWith_iff by auto
      then show ?thesis by simp
    next
      case (Cons a u')
      with uv have "cs = u' @ pat @ v" by simp
      with Cons.IH have "str_includes cs pat" by blast
      then show ?thesis by simp
    qed
  qed
qed

text \<open>
  The Escape effect after any history of renders and unmounts: the component has one
  listener on the document when its latest render had \<open>open\<close> true, and none otherwise.
\<close>

lemma after_snoc: "after (evs @ [e]) = commit (after evs) e"
  by (simp add: after_def)

lemma latest_snoc:
  "latest (evs @ [e]) = (case e of Render opn cb \<Rightarrow> Some (opn, cb) | Unmount \<Rightarrow> None)"
  by (simp add: latest_def)

lemma after_closed_form:
  "after evs =
     (case latest evs of
        None \<Rightarrow> unmounted
      | Some (opn, cb) \<Rightarrow>
          \<lparr>keydown_listeners = (if opn then [HandleEscape opn cb] else []),
           cleanup = (if opn then Some (HandleEscape opn cb) else None),
           deps = Some (opn, cb)\<rparr>)"
proof (induction evs rule: rev_induct)
  case Nil
  show ?case by (simp add: after_def latest_def)
next
  case (snoc e evs)
  show ?case
  proof (cases e)
    case (Render opn cb)
    then show ?thesis
      using snoc.IH
      by (auto simp add: after_snoc latest_snoc run_effect_def run_cleanup_def unmounted_def
          split: option.splits)
  next
    case Unmount
    then show ?thesis
      using snoc.IH
      by (auto simp add: after_snoc latest_snoc run_cleanup_def unmounted_def
          split: option.splits)
  qed
qed

subsection \<open>Quick prompts\<close>

text \<open>
  C1. Activating a quick prompt sets the intention to the entry's intention and issues one
  request with the entry's prompt, but the request is built by the \<open>handleSubmit\<close> of
  the render in which the click happened, so its temperature is the one of the intention
  selected before the activation. In the initial state (intention \<open>fix\<close>), activating the
  third entry, "Add new features" (intention \<open>brainstorm\<close>, temperature 0.7), sets the
  intention to \<open>brainstorm\<close> and sends a request with temperature 0.1.
\<close>

theorem quick_prompt_request_keeps_previous_temperature:
  "quickPrompts ! 2 \<in> set quickPrompts
   \<and> qp_intention (quickPrompts ! 2) = Brainstorm
   \<and> temperature (intentionConfig Brainstorm) = 0.7
   \<and> intention
        (run (activate
               \<lparr>open_flag = True, onClose = 0, code = ''<a-scene></a-scene>'',
                language = ''html'', fileName = None, onApplySuggestion = None\<rparr>
               initial_state (quickPrompts ! 2))
             initial_state) = Brainstorm
   \<and> map req_prompt
        (requests (activate
               \<lparr>open_flag = True, onClose = 0, code = ''<a-scene></a-scene>'',
                language = ''html'', fileName = None, onApplySuggestion = None\<rparr>
               initial_state (quickPrompts ! 2))) = [prompt (quickPrompts ! 2)]
   \<and> map req_temperature
        (requests (activate
               \<lparr>open_flag = True, onClose = 0, code = ''<a-scene></a-scene>'',
                language = ''html'', fileName = None, onApplySuggestion = None\<rparr>
               initial_state (quickPrompts ! 2))) = [0.1]"
  by (simp add: quickPrompts_def activate_def handleQuickPrompt_def handleSubmit_def
      effectivePrompt_def initial_state_def trim_def isWhiteSpace_def)

subsection \<open>Submission\<close>

text \<open>
  C3. \<open>handleSubmit\<close> is called without an argument by the Enter key and the Ask button,
  where the prompt is the query field, and with the prompt of a catalog entry by
  \<open>handleQuickPrompt\<close>; every such explicit prompt is a non-empty string. Whenever the
  prompt \<open>pr\<close> submitted in one of these ways trims to the empty string, the call performs
  no action at all: no request is issued, and the state, in particular the loading,
  response and error fields, stays as it is.
\<close>

theorem handleSubmit_blank_noop:
  assumes "trim pr = []"
    and "(c = None \<and> query s = pr)
         \<or> (c = Some pr \<and> (pr \<noteq> [] \<or> pr \<in> set (map prompt quickPrompts)))"
  shows "handleSubmit p s c = []
   \<and> requests (handleSubmit p s c) = []
   \<and> run (handleSubmit p s c) s = s
   \<and> loading (run (handleSubmit p s c) s) = loading s
   \<and> response (run (handleSubmit p s c) s) = response s
   \<and> error (run (handleSubmit p s c) s) = error s"
proof -
  have "pr \<notin> set (map prompt quickPrompts)"
    using assms(1) quickPrompts_nonblank by auto
  with assms(2) have "effectivePrompt s c = pr"
    by (auto simp add: effectivePrompt_def)
  with assms(1) have "handleSubmit p s c = []"
    by (simp add: handleSubmit_def)
  then show ?thesis by simp
qed

theorem handleSubmit_blank_noop_witness:
  "trim ''   '' = []
   \<and> handleSubmit
        \<lparr>open_flag = True, onClose = 0, code = ''<a-scene></a-scene>'',
         language = ''html'', fileName = None, onApplySuggestion = None\<rparr>
        (initial_state\<lparr>query := ''   '', error := Some ''old''\<rparr>) None = []
   \<and> error
        (run (handleSubmit
                \<lparr>open_flag = True, onClose = 0, code = ''<a-scene></a-scene>'',
                 language = ''html'', fileName = None, onApplySuggestion = None\<rparr>
                (initial_state\<lparr>query := ''   '', error := Some ''old''\<rparr>) None)
             (initial_state\<lparr>query := ''   '', error := Some ''old''\<rparr>))
      = Some ''old''"
proof -
  have h: "trim ''   '' = []"
    by (simp add: trim_def isWhiteSpace_def)
  have q: "(None :: string option) = None
           \<and> query (initial_state\<lparr>query := ''   '', error := Some ''old''\<rparr>) = ''   ''"
    by simp
  from handleSubmit_blank_noop [OF h disjI1, OF q] h
  show ?thesis by (simp add: initial_state_def)
qed

text \<open>
  C4. A submission whose effective prompt is not blank first calls \<open>setLoading(true)\<close>,
  \<open>setError(null)\<close> and \<open>setResponse(null)\<close> and only then the inference function, and
  these are all its actions up to the \<open>await\<close>; in the resulting state loading is true
  and the response and the error are null.
\<close>

theorem handleSubmit_start_clears:
  "trim (effectivePrompt s c) \<noteq> [] \<Longrightarrow>
   (\<exists>req. handleSubmit p s c =
       [SetLoading True, SetError None, SetResponse None, CallAIAssistantDirect req])
   \<and> loading (run (handleSubmit p s c) s) = True
   \<and> error (run (handleSubmit p s c) s) = None
   \<and> response (run (handleSubmit p s c) s) = None"
  by (simp add: handleSubmit_nonblank)

theorem handleSubmit_start_clears_witness:
  "trim (effectivePrompt
           \<lparr>query = ''hello'',
            response = Some \<lparr>suggestion = ''a'', explanation = ''b'', confidence = 0.9\<rparr>,
            loading = False, error = Some ''old'', intention = Explain\<rparr> None) \<noteq> []
   \<and> response (run (handleSubmit
           \<lparr>open_flag = True, onClose = 0, code = ''<a-scene></a-scene>'',
            language = ''html'', fileName = None, onApplySuggestion = None\<rparr>
           \<lparr>query = ''hello'',
            response = Some \<lparr>suggestion = ''a'', explanation = ''b'', confidence = 0.9\<rparr>,
            loading = False, error = Some ''old'', intention = Explain\<rparr> None)
           \<lparr>query = ''hello'',
            response = Some \<lparr>suggestion = ''a'', explanation = ''b'', confidence = 0.9\<rparr>,
            loading = False, error = Some ''old'', intention = Explain\<rparr>) = None"
proof -
  have h: "trim (effectivePrompt
           \<lparr>query = ''hello'',
            response = Some \<lparr>suggestion = ''a'', explanation = ''b'', confidence = 0.9\<rparr>,
            loading = False, error = Some ''old'', intention = Explain\<rparr> None) \<noteq> []"
    by (simp add: effectivePrompt_def trim_def isWhiteSpace_def)
  from handleSubmit_start_clears [OF h] h show ?thesis
    by blast
qed

text \<open>
  C2, as stated, fails for a rejection with an \<open>Error\<close> object whose message is the empty
  string: \<open>err instanceof Error ? err.message : ...\<close> stores that empty message, not the
  fallback, so the error is non-null but empty.
\<close>

theorem handleSubmit_empty_error_message_counterexample:
  "requests
     (handleSubmit
        \<lparr>open_flag = True, onClose = 0, code = ''<a-scene></a-scene>'',
         language = ''html'', fileName = None, onApplySuggestion = None\<rparr>
        (initial_state\<lparr>query := ''hello''\<rparr>) None) \<noteq> []
   \<and> error
        (run (handleSubmit_settled (Rejected (ErrorObject [])))
           (run (handleSubmit
                   \<lparr>open_flag = True, onClose = 0, code = ''<a-scene></a-scene>'',
                    language = ''html'', fileName = None, onApplySuggestion = None\<rparr>
                   (initial_state\<lparr>query := ''hello''\<rparr>) None)
                (initial_state\<lparr>query := ''hello''\<rparr>)))
      = Some []"
  by (simp add: handleSubmit_def effectivePrompt_def initial_state_def trim_def
      isWhiteSpace_def)

text \<open>
  C2, amended. When a submission that issued its request settles: if the call resolved
  with \<open>d\<close>, loading is false, the response is \<open>d\<close> and the error is null; if it was
  rejected, loading is false, the response is null and the error is non-null, namely the
  message of the thrown \<open>Error\<close> object (whatever it is, also empty), or the fallback
  string, which is not empty, when the thrown value is not an \<open>Error\<close> object.
\<close>

theorem handleSubmit_completion:
  "trim (effectivePrompt s c) \<noteq> [] \<Longrightarrow>
   loading (run (handleSubmit_settled (Resolved d)) (run (handleSubmit p s c) s)) = False
   \<and> response (run (handleSubmit_settled (Resolved d)) (run (handleSubmit p s c) s)) = Some d
   \<and> error (run (handleSubmit_settled (Resolved d)) (run (handleSubmit p s c) s)) = None
   \<and> loading (run (handleSubmit_settled (Rejected e)) (run (handleSubmit p s c) s)) = False
   \<and> response (run (handleSubmit_settled (Rejected e)) (run (handleSubmit p s c) s)) = None
   \<and> error (run (handleSubmit_settled (Rejected e)) (run (handleSubmit p s c) s))
       = Some (case e of ErrorObject m \<Rightarrow> m | NonError \<Rightarrow> ''Failed to get AI response'')
   \<and> ''Failed to get AI response'' \<noteq> []"
  by (cases e) (simp_all add: handleSubmit_nonblank fallback_message_def)

theorem handleSubmit_completion_witness:
  "trim (effectivePrompt (initial_state\<lparr>query := ''hello''\<rparr>) None) \<noteq> []
   \<and> error
        (run (handleSubmit_settled (Rejected (ErrorObject ''quota exceeded'')))
           (run (handleSubmit
                   \<lparr>open_flag = True, onClose = 0, code = ''<a-scene></a-scene>'',
                    language = ''html'', fileName = None, onApplySuggestion = None\<rparr>
                   (initial_state\<lparr>query := ''hello''\<rparr>) None)
                (initial_state\<lparr>query := ''hello''\<rparr>)))
      = Some ''quota exceeded''
   \<and> response
        (run (handleSubmit_settled
                (Resolved \<lparr>suggestion = ''<a-scene><a-box></a-box></a-scene>'',
                           explanation = ''added a box'', confidence = 0.9\<rparr>))
           (run (handleSubmit
                   \<lparr>open_flag = True, onClose = 0, code = ''<a-scene></a-scene>'',
                    language = ''html'', fileName = None, onApplySuggestion = None\<rparr>
                   (initial_state\<lparr>query := ''hello''\<rparr>) None)
                (initial_state\<lparr>query := ''hello''\<rparr>)))
      = Some \<lparr>suggestion = ''<a-scene><a-box></a-box></a-scene>'',
               explanation = ''added a box'', confidence = 0.9\<rparr>"
proof -
  have h: "trim (effectivePrompt (initial_state\<lparr>query := ''hello''\<rparr>) None) \<noteq> []"
    by (simp add: effectivePrompt_def initial_state_def trim_def isWhiteSpace_def)
  from handleSubmit_completion [OF h,
      of "\<lparr>suggestion = ''<a-scene><a-box></a-box></a-scene>'',
           explanation = ''added a box'', confidence = 0.9\<rparr>" _
         "ErrorObject ''quota exceeded''"] h
  show ?thesis by simp
qed

text \<open>
  C10. A submission calls no setter but \<open>setLoading\<close>, \<open>setError\<close> and \<open>setResponse\<close>:
  the state after the invocation, and the state after the settlement applied to whatever
  state the component is in by then, differ from the state before at most in the
  loading, response and error fields; the query and the intention are the same.
\<close>

theorem handleSubmit_frame:
  "run (handleSubmit p s c) s
     = s\<lparr>loading := loading (run (handleSubmit p s c) s),
         response := response (run (handleSubmit p s c) s),
         error := error (run (handleSubmit p s c) s)\<rparr>
   \<and> query (run (handleSubmit p s c) s) = query s
   \<and> intention (run (handleSubmit p s c) s) = intention s
   \<and> run (handleSubmit_settled out) s'
     = s'\<lparr>loading := loading (run (handleSubmit_settled out) s'),
          response := response (run (handleSubmit_settled out) s'),
          error := error (run (handleSubmit_settled out) s')\<rparr>
   \<and> query (run (handleSubmit_settled out) s') = query s'
   \<and> intention (run (handleSubmit_settled out) s') = intention s'"
  by (cases out) (simp_all add: handleSubmit_def Let_def)

theorem handleSubmit_frame_witness:
  "query (run (handleSubmit
                 \<lparr>open_flag = True, onClose = 0, code = ''<a-scene></a-scene>'',
                  language = ''html'', fileName = None, onApplySuggestion = None\<rparr>
                 (initial_state\<lparr>query := ''hello'', intention := Optimize\<rparr>) None)
              (initial_state\<lparr>query := ''hello'', intention := Optimize\<rparr>)) = ''hello''
   \<and> intention (run (handleSubmit_settled (Rejected NonError))
                    (initial_state\<lparr>query := ''hello'', intention := Optimize\<rparr>)) = Optimize"
  using handleSubmit_frame
    [of "\<lparr>open_flag = True, onClose = 0, code = ''<a-scene></a-scene>'',
          language = ''html'', fileName = None, onApplySuggestion = None\<rparr>"
        "initial_state\<lparr>query := ''hello'', intention := Optimize\<rparr>" None
        "Rejected NonError" "initial_state\<lparr>query := ''hello'', intention := Optimize\<rparr>"]
  by (simp add: initial_state_def)

subsection \<open>Intentions\<close>

text \<open>
  C5. After the intention button of \<open>i\<close> has been clicked, submitting the query field
  (a prompt that is not blank) issues exactly one request; its temperature is 0.1 for
  fix, 0.2 for optimize, 0.3 for explain and 0.7 for brainstorm, and it carries the
  caller's code, the language in lower case, the file name as given, the query as prompt
  and the fixed context string. The language in lower case is the language with every
  capital letter (code units 65 to 90, and 192 to 222 without 215) replaced by the
  letter 32 code units above it and every other code unit left as it is.
\<close>

theorem selected_intention_request:
  "trim (query s) \<noteq> [] \<Longrightarrow>
   requests (handleSubmit p (run (onClick p s b (IntentionButton i)) s) None) =
     [\<lparr>req_code = code p, req_language = toLowerCase (language p),
       req_fileName = fileName p, req_prompt = query s,
       req_context = ''WebXR development with A-Frame, Three.js, and modern web technologies'',
       req_temperature =
         (case i of Fix \<Rightarrow> 0.1 | Optimize \<Rightarrow> 0.2 | Explain \<Rightarrow> 0.3 | Brainstorm \<Rightarrow> 0.7)\<rparr>]
   \<and> map of_char (toLowerCase (language p)) =
       map (\<lambda>c. if (65 \<le> (of_char c :: nat) \<and> (of_char c :: nat) \<le> 90)
                    \<or> (192 \<le> (of_char c :: nat) \<and> (of_char c :: nat) \<le> 222
                        \<and> (of_char c :: nat) \<noteq> 215)
                 then of_char c + 32 else (of_char c :: nat)) (language p)
   \<and> toLowerCase ''ABCDEFGHIJKLMNOPQRSTUVWXYZ'' = ''abcdefghijklmnopqrstuvwxyz''"
  by (cases i)
     (simp_all add: handleSubmit_def effectivePrompt_def context_string_def
        toLowerCase_code_units toLowerCase_alphabet(1))

theorem selected_intention_request_witness:
  "trim (query (initial_state\<lparr>query := ''add a sky''\<rparr>)) \<noteq> []
   \<and> requests
        (handleSubmit
           \<lparr>open_flag = True, onClose = 0, code = ''<a-scene></a-scene>'',
            language = ''HTML'', fileName = Some ''index.html'', onApplySuggestion = None\<rparr>
           (run (onClick
                   \<lparr>open_flag = True, onClose = 0, code = ''<a-scene></a-scene>'',
                    language = ''HTML'', fileName = Some ''index.html'',
                    onApplySuggestion = None\<rparr>
                   (initial_state\<lparr>query := ''add a sky''\<rparr>) False
                   (IntentionButton Brainstorm))
                (initial_state\<lparr>query := ''add a sky''\<rparr>))
           None)
      = [\<lparr>req_code = ''<a-scene></a-scene>'', req_language = ''html'',
          req_fileName = Some ''index.html'', req_prompt = ''add a sky'',
          req_context = ''WebXR development with A-Frame, Three.js, and modern web technologies'',
          req_temperature = 0.7\<rparr>]"
proof -
  have h: "trim (query (initial_state\<lparr>query := ''add a sky''\<rparr>)) \<noteq> []"
    by (simp add: trim_def isWhiteSpace_def)
  have l: "toLowerCase ''HTML'' = ''html''"
    by code_simp
  from selected_intention_request [OF h,
      of "\<lparr>open_flag = True, onClose = 0, code = ''<a-scene></a-scene>'',
           language = ''HTML'', fileName = Some ''index.html'', onApplySuggestion = None\<rparr>"
         False Brainstorm] h l
  show ?thesis by simp
qed

subsection \<open>Applying a suggestion\<close>

text \<open>
  C6, as stated, fails where the guard \<open>response?.suggestion && onApplySuggestion\<close> does
  not hold. The empty suggestion has neither marker, yet with an apply callback supplied
  the apply action calls nothing; and a suggestion with the \<open><html\<close> marker, when no
  apply callback was supplied, is applied without any confirmation being asked:
  nothing happens at all.
\<close>

theorem handleApplySuggestion_guard_counterexample:
  "\<not> str_includes [] ''<!DOCTYPE'' \<and> \<not> str_includes [] ''<html''
   \<and> handleApplySuggestion
        \<lparr>open_flag = True, onClose = 0, code = ''<a-scene></a-scene>'',
         language = ''html'', fileName = None, onApplySuggestion = Some 1\<rparr>
        (initial_state
           \<lparr>response := Some \<lparr>suggestion = [], explanation = ''nothing to change'',
                               confidence = 0.9\<rparr>\<rparr>)
        True = []
   \<and> str_includes ''<html></html>'' ''<html''
   \<and> handleApplySuggestion
        \<lparr>open_flag = True, onClose = 0, code = ''<a-scene></a-scene>'',
         language = ''html'', fileName = None, onApplySuggestion = None\<rparr>
        (initial_state
           \<lparr>response := Some \<lparr>suggestion = ''<html></html>'', explanation = ''a page'',
                               confidence = 0.9\<rparr>\<rparr>)
        True = []"
  by (simp add: handleApplySuggestion_def initial_state_def startsWith_def)

text \<open>
  C6, amended. Let an apply callback be supplied and the suggestion of the current
  response be non-empty. If the suggestion contains \<open><!DOCTYPE\<close> or \<open><html\<close>, the apply
  action first asks for confirmation; when the user declines nothing else happens (no
  callback, the dialog stays open), and when the user confirms the apply callback is
  called with the suggestion text and then the close callback. If the suggestion
  contains neither marker, the apply callback is called with the suggestion text and
  then the close callback, and no confirmation is asked. The component state is the
  same afterwards in every case.
\<close>

theorem handleApplySuggestion_confirmation:
  "response s = Some r \<Longrightarrow> onApplySuggestion p = Some cb \<Longrightarrow> suggestion r \<noteq> [] \<Longrightarrow>
   (str_includes (suggestion r) ''<!DOCTYPE'' \<or> str_includes (suggestion r) ''<html'' \<longrightarrow>
      handleApplySuggestion p s False = [WindowConfirm confirm_message]
      \<and> handleApplySuggestion p s True =
          [WindowConfirm confirm_message,
           OnApplySuggestion cb (suggestion r), OnClose (onClose p)])
   \<and> (\<not> str_includes (suggestion r) ''<!DOCTYPE'' \<and> \<not> str_includes (suggestion r) ''<html'' \<longrightarrow>
      handleApplySuggestion p s b = [OnApplySuggestion cb (suggestion r), OnClose (onClose p)])
   \<and> run (handleApplySuggestion p s b) s = s"
  by (simp add: handleApplySuggestion_def)

theorem handleApplySuggestion_confirmation_witness:
  "str_includes ''<!DOCTYPE html><html></html>'' ''<!DOCTYPE''
   \<and> handleApplySuggestion
        \<lparr>open_flag = True, onClose = 0, code = ''<a-scene></a-scene>'',
         language = ''html'', fileName = None, onApplySuggestion = Some 1\<rparr>
        (initial_state
           \<lparr>response := Some \<lparr>suggestion = ''<!DOCTYPE html><html></html>'',
                               explanation = ''a page'', confidence = 0.9\<rparr>\<rparr>)
        True
      = [WindowConfirm confirm_message,
         OnApplySuggestion 1 ''<!DOCTYPE html><html></html>'', OnClose 0]
   \<and> \<not> str_includes ''<a-box></a-box>'' ''<!DOCTYPE''
   \<and> \<not> str_includes ''<a-box></a-box>'' ''<html''
   \<and> handleApplySuggestion
        \<lparr>open_flag = True, onClose = 0, code = ''<a-scene></a-scene>'',
         language = ''html'', fileName = None, onApplySuggestion = Some 1\<rparr>
        (initial_state
           \<lparr>response := Some \<lparr>suggestion = ''<a-box></a-box>'',
                               explanation = ''added a box'', confidence = 0.9\<rparr>\<rparr>)
        False
      = [OnApplySuggestion 1 ''<a-box></a-box>'', OnClose 0]"
proof -
  have m: "str_includes ''<!DOCTYPE html><html></html>'' ''<!DOCTYPE''"
    by (simp add: startsWith_def)
  have n: "\<not> str_includes ''<a-box></a-box>'' ''<!DOCTYPE''"
    "\<not> str_includes ''<a-box></a-box>'' ''<html''"
    by (simp_all add: startsWith_def)
  have r1: "response (initial_state
             \<lparr>response := Some \<lparr>suggestion = ''<!DOCTYPE html><html></html>'',
                                 explanation = ''a page'', confidence = 0.9\<rparr>\<rparr>)
           = Some \<lparr>suggestion = ''<!DOCTYPE html><html></html>'',
                    explanation = ''a page'', confidence = 0.9\<rparr>"
    by simp
  have r2: "response (initial_state
             \<lparr>response := Some \<lparr>suggestion = ''<a-box></a-box>'',
                                 explanation = ''added a box'', confidence = 0.9\<rparr>\<rparr>)
           = Some \<lparr>suggestion = ''<a-box></a-box>'',
                    explanation = ''added a box'', confidence = 0.9\<rparr>"
    by simp
  have cb: "onApplySuggestion
          \<lparr>open_flag = True, onClose = 0, code = ''<a-scene></a-scene>'',
            language = ''html'', fileName = None, onApplySuggestion = Some 1\<rparr> = Some 1"
    by simp
  have ne: "suggestion \<lparr>suggestion = ''<!DOCTYPE html><html></html>'',
                    explanation = ''a page'', confidence = 0.9\<rparr> \<noteq> []"
    "suggestion \<lparr>suggestion = ''<a-box></a-box>'',
                    explanation = ''added a box'', confidence = 0.9\<rparr> \<noteq> []"
    by simp_all
  from handleApplySuggestion_confirmation [OF r1 cb ne(1), of True]
    handleApplySuggestion_confirmation [OF r2 cb ne(2), of False] m n
  show ?thesis by (simp del: str_includes.simps)
qed

text \<open>
  C9. When no apply callback was supplied, or when the suggestion of the current response
  is the empty string, the apply action performs no action: no callback is called, the
  dialog is not closed, and the state is unchanged.
\<close>

theorem handleApplySuggestion_noop:
  "onApplySuggestion p = None \<or> (\<exists>r. response s = Some r \<and> suggestion r = [])
   \<Longrightarrow> handleApplySuggestion p s b = [] \<and> run (handleApplySuggestion p s b) s = s"
  by (auto simp add: handleApplySuggestion_def split: option.splits)

theorem handleApplySuggestion_noop_witness:
  "handleApplySuggestion
     \<lparr>open_flag = True, onClose = 0, code = ''<a-scene></a-scene>'',
      language = ''html'', fileName = None, onApplySuggestion = None\<rparr>
     (initial_state
        \<lparr>response := Some \<lparr>suggestion = ''<a-box></a-box>'',
                            explanation = ''added a box'', confidence = 0.9\<rparr>\<rparr>)
     True = []
   \<and> handleApplySuggestion
     \<lparr>open_flag = True, onClose = 0, code = ''<a-scene></a-scene>'',
      language = ''html'', fileName = None, onApplySuggestion = Some 1\<rparr>
     (initial_state
        \<lparr>response := Some \<lparr>suggestion = [], explanation = ''nothing to change'',
                            confidence = 0.9\<rparr>\<rparr>)
     True = []"
  using handleApplySuggestion_noop
      [of "\<lparr>open_flag = True, onClose = 0, code = ''<a-scene></a-scene>'',
            language = ''html'', fileName = None, onApplySuggestion = None\<rparr>"
          "initial_state
             \<lparr>response := Some \<lparr>suggestion = ''<a-box></a-box>'',
                                 explanation = ''added a box'', confidence = 0.9\<rparr>\<rparr>" True]
    handleApplySuggestion_noop
      [of "\<lparr>open_flag = True, onClose = 0, code = ''<a-scene></a-scene>'',
            language = ''html'', fileName = None, onApplySuggestion = Some 1\<rparr>"
          "initial_state
             \<lparr>response := Some \<lparr>suggestion = [], explanation = ''nothing to change'',
                                 confidence = 0.9\<rparr>\<rparr>" True]
  by (simp add: initial_state_def)

subsection \<open>Dismissal\<close>

text \<open>
  C7. After any history of renders and unmounts: when the latest render had \<open>open\<close> true
  and close callback \<open>cb\<close>, the component has exactly one listener on the document, and a
  press of Escape calls \<open>cb\<close> once and does nothing else; when the latest render had
  \<open>open\<close> false, or the component is unmounted, the component has no listener on the
  document and a press of any key does nothing.
\<close>

theorem escape_closes_only_while_open:
  "(latest evs = Some (True, cb) \<longrightarrow>
        keydown_listeners (after evs) = [HandleEscape True cb]
        \<and> keydown (after evs) ''Escape'' = [OnClose cb])
   \<and> (latest evs = Some (False, cb) \<or> latest evs = None \<longrightarrow>
        keydown_listeners (after evs) = [] \<and> keydown (after evs) key = [])"
  by (auto simp add: after_closed_form keydown_def unmounted_def)

theorem escape_closes_only_while_open_witness:
  "latest [Render False 7, Render True 7, Render True 8] = Some (True, 8)
   \<and> keydown (after [Render False 7, Render True 7, Render True 8]) ''Escape'' = [OnClose 8]
   \<and> latest [Render True 7, Render False 7] = Some (False, 7)
   \<and> keydown (after [Render True 7, Render False 7]) ''Escape'' = []
   \<and> latest [Render True 7, Unmount] = None
   \<and> keydown (after [Render True 7, Unmount]) ''Escape'' = []"
proof -
  have h1: "latest [Render False 7, Render True 7, Render True 8] = Some (True, 8)"
    by (simp add: latest_def)
  have h2: "latest [Render True 7, Render False 7] = Some (False, 7)"
    by (simp add: latest_def)
  have h3: "latest [Render True 7, Unmount] = None"
    by (simp add: latest_def)
  from escape_closes_only_while_open [of "[Render False 7, Render True 7, Render True 8]" 8]
    escape_closes_only_while_open [of "[Render True 7, Render False 7]" 7 "''Escape''"]
    escape_closes_only_while_open [of "[Render True 7, Unmount]" 7 "''Escape''"]
    h1 h2 h3
  show ?thesis by blast
qed




end
